theory Spec2Isabelle
  imports Complex_Main
begin

section \<open>The heuristic AHRS estimator of ahrs/ahrs_heuristic.go\<close>

text \<open>
  The Go file declares the estimator state \<open>HeuristicState\<close>, its constructor
  \<open>InitializeHeuristic\<close> and the per-sample update \<open>Compute\<close>.  The update mutates
  the state through a pointer; here it takes the state and returns the new one.

  Numbers.  Every numeric field and local of the source is a \<open>float64\<close>.  They are
  modelled as \<^typ>\<open>real\<close>: finite values and exact arithmetic, no rounding, no
  overflow, no NaN and no infinity.  Statements that copy a value, store a constant or
  compare two formulas term by term do not depend on this choice.  Where the source
  divides (\<open>/\<close>) or calls \<open>math.Acos\<close>, a float64 run yields NaN or an infinity
  on a zero divisor or an argument outside \<open>[-1, 1]\<close>, whereas \<open>x / 0 = 0\<close> in HOL
  and \<^term>\<open>arccos\<close> is unspecified there.  At such inputs the model does not say
  what the code computes.  Every theorem below that states a value of the orientation
  does so at inputs where no divisor is zero and the argument of \<open>math.Acos\<close> lies in
  \<open>[-1, 1]\<close>.  A theorem that states what a quotient of the smoothing stage is
  worth names its divisors as non-zero; one that repeats the quotient as the source
  writes it leaves it as it is.
\<close>

subsection \<open>Constants (lines 7-10)\<close>

definition KSHORT :: real where
  "KSHORT = 0.2"

definition KLONG :: real where
  "KLONG = 0.02"

subsection \<open>Data\<close>

type_synonym vec3 = "real \<times> real \<times> real"
type_synonym quat = "real \<times> real \<times> real \<times> real"

text \<open>
  Modelled from the spec: the type \<open>Measurement\<close> is declared in another file of
  the package.  The fields are those of section 3 of the specification, which are
  also all the fields that \<open>Compute\<close> reads.
\<close>

record Measurement =
  T :: real
  W1 :: real
  W2 :: real
  W3 :: real
  WValid :: bool
  A1 :: real
  A2 :: real
  A3 :: real
  M1 :: real
  M2 :: real
  M3 :: real
  MValid :: bool

text \<open>
  Modelled from the spec: the base type \<open>State\<close>, embedded in \<open>HeuristicState\<close>
  (line 13), is declared in another file of the package.  It holds the orientation
  quaternion \<open>E0..E3\<close>, the rotation-matrix elements \<open>e11..e33\<close> that lines 134-136
  read, the north-reference vector \<open>N1..N3\<close> and the last-seen timestamp \<open>T\<close>.
  The timestamp field has the same name as the one of \<open>Measurement\<close>; it is the one
  written \<open>T\<close> from here on, and the sample's is \<open>Measurement.T\<close>.
\<close>

record State =
  E0 :: real
  E1 :: real
  E2 :: real
  E3 :: real
  e11 :: real
  e12 :: real
  e13 :: real
  e21 :: real
  e22 :: real
  e23 :: real
  e31 :: real
  e32 :: real
  e33 :: real
  N1 :: real
  N2 :: real
  N3 :: real
  T :: real

text \<open>Lines 12-27.  Go's struct embedding is the record extension.\<close>

record HeuristicState = State +
  Inertial :: bool
  HeadingValid :: bool
  Z1 :: real
  Z2 :: real
  Z3 :: real
  W10 :: real
  W20 :: real
  W30 :: real
  W1S :: real
  W2S :: real
  W3S :: real
  W1L :: real
  W2L :: real
  W3L :: real
  A1S :: real
  A2S :: real
  A3S :: real
  A1L :: real
  A2L :: real
  A3L :: real
  B1S :: real
  B2S :: real
  B3S :: real
  B1L :: real
  B2L :: real
  B3L :: real
  M1S :: real
  M2S :: real
  M3S :: real
  M1L :: real
  M2L :: real
  M3L :: real

subsection \<open>InitializeHeuristic (lines 29-32)\<close>

text \<open>
  \<open>new(HeuristicState)\<close> allocates a state whose every field has Go's zero value:
  \<open>0\<close> for a float64, \<open>false\<close> for a bool.  The argument \<open>m\<close> is not read.
\<close>

definition InitializeHeuristic :: "Measurement \<Rightarrow> HeuristicState" where
  "InitializeHeuristic m =
     \<lparr>E0 = 0, E1 = 0, E2 = 0, E3 = 0,
      e11 = 0, e12 = 0, e13 = 0, e21 = 0, e22 = 0, e23 = 0, e31 = 0, e32 = 0, e33 = 0,
      N1 = 0, N2 = 0, N3 = 0, T = 0,
      Inertial = False, HeadingValid = False,
      Z1 = 0, Z2 = 0, Z3 = 0,
      W10 = 0, W20 = 0, W30 = 0,
      W1S = 0, W2S = 0, W3S = 0,
      W1L = 0, W2L = 0, W3L = 0,
      A1S = 0, A2S = 0, A3S = 0,
      A1L = 0, A2L = 0, A3L = 0,
      B1S = 0, B2S = 0, B3S = 0,
      B1L = 0, B2L = 0, B3L = 0,
      M1S = 0, M2S = 0, M3S = 0,
      M1L = 0, M2L = 0, M3L = 0\<rparr>"

subsection \<open>Compute (lines 34-138), stage by stage\<close>

text \<open>
  Two names that \<open>Compute\<close> uses are declared in other files of the package: the
  constant \<open>G\<close> (line 50) and the function \<open>QuaternionAToB\<close> (line 72).  Both are
  parameters of the model: \<open>G\<close> a real number, \<open>qAToB\<close> any function from the six
  components of two vectors to a quaternion.
\<close>

text \<open>Lines 36-41: the startup seeding of the previous-velocity memory.\<close>

definition startup :: "HeuristicState \<Rightarrow> Measurement \<Rightarrow> HeuristicState" where
  "startup s m =
     (if W10 s = 0 \<and> W20 s = 0 \<and> W30 s = 0
      then s\<lparr>W10 := W1 m, W20 := W2 m, W30 := W3 m\<rparr>
      else s)"

text \<open>
  Lines 35-63.  In the valid branch the three moving averages are assigned first
  (lines 44-46), then the three accelerations (lines 50-52); no right-hand side reads
  a field assigned earlier in the branch other than \<open>W10, W20, W30\<close>, so one
  simultaneous update of the seeded state \<open>s0\<close> is the same.
\<close>

definition smoothing :: "real \<Rightarrow> HeuristicState \<Rightarrow> Measurement \<Rightarrow> HeuristicState" where
  "smoothing G s m =
     (if WValid m then
        (let s0 = startup s m in
         s0\<lparr>W1S := KSHORT * W1 m + (1 - KSHORT) * W1S s0,
            W2S := KSHORT * W2 m + (1 - KSHORT) * W2S s0,
            W3S := KSHORT * W3 m + (1 - KSHORT) * W3S s0,
            Z1 := KSHORT * (W1 m - W10 s0) / (Measurement.T m - T s0) / G + (1 - KSHORT) * Z1 s0,
            Z2 := KSHORT * (W2 m - W20 s0) / (Measurement.T m - T s0) / G + (1 - KSHORT) * Z2 s0,
            Z3 := KSHORT * (W3 m - W30 s0) / (Measurement.T m - T s0) / G + (1 - KSHORT) * Z3 s0\<rparr>)
      else
        s\<lparr>W10 := 0, W20 := 0, W30 := 0,
          W1S := 0, W2S := 0, W3S := 0,
          Z1 := 0, Z2 := 0, Z3 := 0\<rparr>)"

text \<open>Lines 66-68: the apparent gravity in the earth frame.\<close>

definition apparent_gravity :: "HeuristicState \<Rightarrow> vec3" where
  "apparent_gravity s = (- Z1 s, - Z2 s, - Z3 s - 1)"

text \<open>
  Lines 78-88: the reference heading.  With \<open>WValid\<close> and a smoothed velocity that is
  exactly zero, \<open>ww\<close> is 0 and lines 81-83 divide zero by zero: a float64 run has NaN
  in \<open>we1, we2, we3\<close> there, where this definition has \<open>(0, 0, 0)\<close>.  The definition
  is the source's wherever \<open>ww\<close> is not zero, and no theorem below uses its value at
  \<open>ww = 0\<close>.
\<close>

definition reference_heading :: "HeuristicState \<Rightarrow> Measurement \<Rightarrow> vec3" where
  "reference_heading s m =
     (if WValid m then
        (let ww = sqrt (W1S s * W1S s + W2S s * W2S s + W3S s * W3S s)
         in (W1S s / ww, W2S s / ww, W3S s / ww))
      else (0, 1, 0))"

text \<open>Lines 91-93: the sensor's forward direction in the earth frame.\<close>

definition forward_axis :: "quat \<Rightarrow> vec3" where
  "forward_axis q =
     (case q of (q0, q1, q2, q3) \<Rightarrow>
        (1 - 2 * (q3 * q3 + q2 * q2),
         2 * (q0 * q3 + q1 * q2),
         2 * (q1 * q3 - q0 * q2)))"

text \<open>
  Lines 97-103: the vector perpendicular to \<open>ae\<close> and \<open>xe\<close>, divided by its length
  \<open>uu\<close>.  The result is the value of \<open>u1, u2, u3\<close> after line 103.
\<close>

definition perp_u :: "vec3 \<Rightarrow> vec3 \<Rightarrow> vec3" where
  "perp_u ae xe =
     (case ae of (ae1, ae2, ae3) \<Rightarrow> case xe of (xe1, xe2, xe3) \<Rightarrow>
        (let u1 = ae2 * xe3 - ae3 * xe2;
             u2 = ae3 * xe1 - ae1 * xe3;
             u3 = ae1 * xe2 - ae2 * xe1;
             uu = sqrt (u1 * u1 + u2 * u2 + u3 * u3)
         in (u1 / uu, u2 / uu, u3 / uu)))"

text \<open>
  Lines 105-111: the vector perpendicular to \<open>ae\<close> and \<open>we\<close>.  Line 108 computes the
  divisor \<open>vv\<close> from \<open>u1, u2, u3\<close>, which at that point hold the divided values of
  lines 101-103; the third argument is that \<open>u\<close>.
\<close>

definition perp_v :: "vec3 \<Rightarrow> vec3 \<Rightarrow> vec3 \<Rightarrow> vec3" where
  "perp_v ae we u =
     (case ae of (ae1, ae2, ae3) \<Rightarrow> case we of (we1, we2, we3) \<Rightarrow>
      case u of (u1, u2, u3) \<Rightarrow>
        (let v1 = ae2 * we3 - ae3 * we2;
             v2 = ae3 * we1 - ae1 * we3;
             v3 = ae1 * we2 - ae2 * we1;
             vv = sqrt (u1 * u1 + u2 * u2 + u3 * u3)
         in (v1 / vv, v2 / vv, v3 / vv)))"

text \<open>Line 112: the angle between \<open>u\<close> and \<open>v\<close>.\<close>

definition heading_angle :: "vec3 \<Rightarrow> vec3 \<Rightarrow> real" where
  "heading_angle u v =
     (case u of (u1, u2, u3) \<Rightarrow> case v of (v1, v2, v3) \<Rightarrow>
        arccos (u1 * v1 + u2 * v2 + u3 * v3))"

text \<open>Lines 116-120: the quaternion of the rotation by \<open>alpha\<close> around \<open>ae\<close>.\<close>

definition rotation_about :: "vec3 \<Rightarrow> real \<Rightarrow> quat" where
  "rotation_about ae alpha =
     (case ae of (ae1, ae2, ae3) \<Rightarrow>
        (let p0 = cos (alpha / 2);
             sa = sin (alpha / 2)
         in (p0, sa * ae1, sa * ae2, sa * ae3)))"

text \<open>Lines 122-125: the four components stored in \<open>E0..E3\<close>.\<close>

definition compose :: "quat \<Rightarrow> quat \<Rightarrow> quat" where
  "compose p q =
     (case p of (p0, p1, p2, p3) \<Rightarrow> case q of (q0, q1, q2, q3) \<Rightarrow>
        (p0 * q0 - p1 * q1 - p2 * p2 - p3 * q3,
         p0 * q1 + p1 * q0 + p2 * q3 - p3 * q2,
         p0 * q2 - p1 * q3 + p2 * q0 + p3 * q1,
         p0 * q3 + p1 * q2 - p2 * q1 + p3 * q0))"

text \<open>
  The locals of lines 66-120, as one function of the smoothed state and the sample:
  the gravity-alignment quaternion \<open>q\<close> (line 72) and the heading-correction
  quaternion \<open>p\<close> (lines 116-120).
\<close>

definition gravity_alignment ::
  "(real \<Rightarrow> real \<Rightarrow> real \<Rightarrow> real \<Rightarrow> real \<Rightarrow> real \<Rightarrow> quat) \<Rightarrow> HeuristicState \<Rightarrow> Measurement \<Rightarrow> quat" where
  "gravity_alignment qAToB s m =
     (case apparent_gravity s of (ae1, ae2, ae3) \<Rightarrow>
        qAToB ae1 ae2 ae3 (A1 m) (A2 m) (A3 m))"

definition heading_correction ::
  "(real \<Rightarrow> real \<Rightarrow> real \<Rightarrow> real \<Rightarrow> real \<Rightarrow> real \<Rightarrow> quat) \<Rightarrow> HeuristicState \<Rightarrow> Measurement \<Rightarrow> quat" where
  "heading_correction qAToB s m =
     (let ae = apparent_gravity s;
          q = gravity_alignment qAToB s m;
          we = reference_heading s m;
          xe = forward_axis q;
          u = perp_u ae xe;
          v = perp_v ae we u;
          alpha = heading_angle u v
      in rotation_about ae alpha)"

text \<open>
  Lines 34-138.  Lines 134-136 read \<open>s.e11 .. s.e33\<close>, fields that no line of
  \<open>Compute\<close> assigns.
\<close>

definition Compute ::
  "real \<Rightarrow> (real \<Rightarrow> real \<Rightarrow> real \<Rightarrow> real \<Rightarrow> real \<Rightarrow> real \<Rightarrow> quat) \<Rightarrow> HeuristicState \<Rightarrow> Measurement
     \<Rightarrow> HeuristicState" where
  "Compute G qAToB s m =
     (let s1 = smoothing G s m;
          q = gravity_alignment qAToB s1 m;
          p = heading_correction qAToB s1 m;
          s2 = (case compose p q of (r0, r1, r2, r3) \<Rightarrow>
                  s1\<lparr>E0 := r0, E1 := r1, E2 := r2, E3 := r3\<rparr>);
          s3 = s2\<lparr>W10 := W1 m, W20 := W2 m, W30 := W3 m, T := Measurement.T m\<rparr>
      in if MValid m then
           s3\<lparr>N1 := M1 m * e11 s3 + M2 m * e12 s3 + M3 m * e13 s3,
              N2 := M1 m * e21 s3 + M2 m * e22 s3 + M3 m * e23 s3,
              N3 := M1 m * e31 s3 + M2 m * e32 s3 + M3 m * e33 s3\<rparr>
         else s3)"

subsection \<open>Accessor (lines 140-142)\<close>

definition Valid :: "HeuristicState \<Rightarrow> bool" where
  "Valid s = True"

subsection \<open>The collaborator QuaternionAToB\<close>

text \<open>
  Modelled from the spec: the function \<open>QuaternionAToB\<close> called in line 72 is
  declared in another file of the package.  Section 2 of the specification describes
  it as the function that returns the minimal-rotation quaternion mapping one 3-vector
  onto another: the rotation about the axis \<open>a \<times> b\<close> by the angle between \<open>a\<close> and
  \<open>b\<close>, which is the normalised quaternion with scalar part \<open>|a| |b| + a \<bullet> b\<close> and
  vector part \<open>a \<times> b\<close>.  The general theorems hold for every function \<open>qAToB\<close>; this
  one is used for the closed examples only, and only at arguments with \<open>a = b\<close>, where
  the minimal rotation is the identity \<open>(1, 0, 0, 0)\<close>.
\<close>

definition QuaternionAToB :: "real \<Rightarrow> real \<Rightarrow> real \<Rightarrow> real \<Rightarrow> real \<Rightarrow> real \<Rightarrow> quat" where
  "QuaternionAToB a1 a2 a3 b1 b2 b3 =
     (let aa = sqrt (a1 * a1 + a2 * a2 + a3 * a3);
          bb = sqrt (b1 * b1 + b2 * b2 + b3 * b3);
          c0 = aa * bb + (a1 * b1 + a2 * b2 + a3 * b3);
          c1 = a2 * b3 - a3 * b2;
          c2 = a3 * b1 - a1 * b3;
          c3 = a1 * b2 - a2 * b1;
          n = sqrt (c0 * c0 + c1 * c1 + c2 * c2 + c3 * c3)
      in (c0 / n, c1 / n, c2 / n, c3 / n))"

subsection \<open>Notions of the specification\<close>

text \<open>
  These definitions follow the words of the specification, not the source; the
  theorems compare the source's functions with them.
\<close>

text \<open>The orientation quaternion that a state stores, and the norm of a quaternion.\<close>

definition quaternion_of :: "HeuristicState \<Rightarrow> quat" where
  "quaternion_of s = (E0 s, E1 s, E2 s, E3 s)"

definition norm_quat :: "quat \<Rightarrow> real" where
  "norm_quat q = (case q of (q0, q1, q2, q3) \<Rightarrow> sqrt (q0 * q0 + q1 * q1 + q2 * q2 + q3 * q3))"

text \<open>The standard Hamilton product \<open>p \<otimes> q\<close> (section 4.3).\<close>

definition hamilton :: "quat \<Rightarrow> quat \<Rightarrow> quat" where
  "hamilton p q =
     (case p of (p0, p1, p2, p3) \<Rightarrow> case q of (q0, q1, q2, q3) \<Rightarrow>
        (p0 * q0 - p1 * q1 - p2 * q2 - p3 * q3,
         p0 * q1 + p1 * q0 + p2 * q3 - p3 * q2,
         p0 * q2 - p1 * q3 + p2 * q0 + p3 * q1,
         p0 * q3 + p1 * q2 - p2 * q1 + p3 * q0))"

text \<open>
  The cross product of two vectors divided by its own Euclidean norm (section 4.3:
  ``cross product, normalized -- each normalized by its own magnitude'').
\<close>

definition normalized_cross :: "vec3 \<Rightarrow> vec3 \<Rightarrow> vec3" where
  "normalized_cross a b =
     (case a of (a1, a2, a3) \<Rightarrow> case b of (b1, b2, b3) \<Rightarrow>
        (let c1 = a2 * b3 - a3 * b2;
             c2 = a3 * b1 - a1 * b3;
             c3 = a1 * b2 - a2 * b1;
             n = sqrt (c1 * c1 + c2 * c2 + c3 * c3)
         in (c1 / n, c2 / n, c3 / n)))"

text \<open>
  The rotation-matrix elements and the north-reference vector that a state stores, and
  the projection of a vector through nine matrix elements, in the shape of lines
  134-136.
\<close>

definition matrix_of :: "HeuristicState \<Rightarrow> vec3 \<times> vec3 \<times> vec3" where
  "matrix_of s = ((e11 s, e12 s, e13 s), (e21 s, e22 s, e23 s), (e31 s, e32 s, e33 s))"

definition north_of :: "HeuristicState \<Rightarrow> vec3" where
  "north_of s = (N1 s, N2 s, N3 s)"

definition project :: "vec3 \<times> vec3 \<times> vec3 \<Rightarrow> vec3 \<Rightarrow> vec3" where
  "project r b =
     (case r of ((r11, r12, r13), (r21, r22, r23), (r31, r32, r33)) \<Rightarrow>
      case b of (b1, b2, b3) \<Rightarrow>
        (b1 * r11 + b2 * r12 + b3 * r13,
         b1 * r21 + b2 * r22 + b3 * r23,
         b1 * r31 + b2 * r32 + b3 * r33))"

text \<open>
  Modelled from the spec: the collaborator that derives the rotation-matrix elements
  from a quaternion (section 2, item (c)) is declared in another file of the package,
  and \<open>Compute\<close> does not call it.  This is the standard matrix of a unit quaternion;
  its first column is the forward axis that lines 91-93 compute.  Which of the matrix
  and its transpose the package stores in \<open>e11..e33\<close> is not visible in the source,
  so the comparison below is made with both.
\<close>

definition rotation_matrix :: "quat \<Rightarrow> vec3 \<times> vec3 \<times> vec3" where
  "rotation_matrix q =
     (case q of (q0, q1, q2, q3) \<Rightarrow>
        ((1 - 2 * (q2 * q2 + q3 * q3), 2 * (q1 * q2 - q0 * q3), 2 * (q1 * q3 + q0 * q2)),
         (2 * (q1 * q2 + q0 * q3), 1 - 2 * (q1 * q1 + q3 * q3), 2 * (q2 * q3 - q0 * q1)),
         (2 * (q1 * q3 - q0 * q2), 2 * (q2 * q3 + q0 * q1), 1 - 2 * (q1 * q1 + q2 * q2))))"

definition transposed :: "vec3 \<times> vec3 \<times> vec3 \<Rightarrow> vec3 \<times> vec3 \<times> vec3" where
  "transposed r =
     (case r of ((r11, r12, r13), (r21, r22, r23), (r31, r32, r33)) \<Rightarrow>
        ((r11, r21, r31), (r12, r22, r32), (r13, r23, r33)))"

text \<open>
  Replaying a sequence of samples (section 8): the host calls \<open>Compute\<close> once per
  sample; \<open>replay\<close> lists the state after every call.
\<close>

fun replay ::
  "real \<Rightarrow> (real \<Rightarrow> real \<Rightarrow> real \<Rightarrow> real \<Rightarrow> real \<Rightarrow> real \<Rightarrow> quat) \<Rightarrow> HeuristicState \<Rightarrow> Measurement list
     \<Rightarrow> HeuristicState list" where
  "replay G qAToB s [] = []"
| "replay G qAToB s (m # ms) = Compute G qAToB s m # replay G qAToB (Compute G qAToB s m) ms"

subsection \<open>Concrete samples and states\<close>

text \<open>
  Where a closed example needs a value for \<open>G\<close> it takes \<open>G = 1\<close>, that is,
  velocities in units of \<open>g\<close> times one second.  The freshly initialised state is
  \<open>s_fresh\<close>.
\<close>

definition s_fresh :: HeuristicState where
  "s_fresh = InitializeHeuristic \<lparr>Measurement.T = 0, W1 = 0, W2 = 0, W3 = 0, WValid = False,
                                 A1 = 0, A2 = 0, A3 = 0, M1 = 0, M2 = 0, M3 = 0, MValid = False\<rparr>"

text \<open>A sample without GPS velocity that still carries numbers in \<open>W1, W2, W3\<close>.\<close>

definition m_gap :: Measurement where
  "m_gap = \<lparr>Measurement.T = 1, W1 = 1, W2 = 2, W3 = 3, WValid = False,
            A1 = 0, A2 = 0, A3 = - 1, M1 = 0, M2 = 0, M3 = 0, MValid = False\<rparr>"

text \<open>A first valid sample: level flight along the first axis.\<close>

definition m_first :: Measurement where
  "m_first = \<lparr>Measurement.T = 1, W1 = 1, W2 = 0, W3 = 0, WValid = True,
              A1 = 0, A2 = 0, A3 = - 1, M1 = 0, M2 = 0, M3 = 0, MValid = False\<rparr>"

text \<open>A first valid sample of a descent: velocity \<open>(3, 0, 4)\<close>.\<close>

definition m_descent :: Measurement where
  "m_descent = \<lparr>Measurement.T = 1, W1 = 3, W2 = 0, W3 = 4, WValid = True,
                A1 = 0, A2 = 0, A3 = - 1, M1 = 0, M2 = 0, M3 = 0, MValid = False\<rparr>"

text \<open>
  A state in steady motion along the second axis whose smoothed acceleration has not
  yet decayed, and the next sample: same velocity, one second later, the accelerometer
  reading equal to the apparent gravity \<open>(0, 3/4, -1)\<close>.
\<close>

definition s_braking :: HeuristicState where
  "s_braking = s_fresh\<lparr>Z2 := - 15 / 16, W20 := 1, W2S := 1\<rparr>"

definition m_braking :: Measurement where
  "m_braking = \<lparr>Measurement.T = 1, W1 = 0, W2 = 1, W3 = 0, WValid = True,
                A1 = 0, A2 = 3 / 4, A3 = - 1, M1 = 0, M2 = 0, M3 = 0, MValid = False\<rparr>"

text \<open>
  Two samples that lead from the fresh state to the same smoothed acceleration, with
  \<open>G = 1\<close>: the velocity along the second axis drops from 4 to 1/4 within one second.
\<close>

definition m_cruise :: Measurement where
  "m_cruise = \<lparr>Measurement.T = 1, W1 = 0, W2 = 4, W3 = 0, WValid = True,
               A1 = 0, A2 = 0, A3 = - 1, M1 = 0, M2 = 0, M3 = 0, MValid = False\<rparr>"

definition m_slowed :: Measurement where
  "m_slowed = \<lparr>Measurement.T = 2, W1 = 0, W2 = 1 / 4, W3 = 0, WValid = True,
               A1 = 0, A2 = 3 / 4, A3 = - 1, M1 = 0, M2 = 0, M3 = 0, MValid = False\<rparr>"

text \<open>
  Two successive samples without GPS velocity, at rest (the accelerometer reads
  \<open>(0, 0, -1)\<close>), with a valid magnetometer vector \<open>(2, 3, 5)\<close>.
\<close>

definition m_mag :: Measurement where
  "m_mag = \<lparr>Measurement.T = 1, W1 = 0, W2 = 0, W3 = 0, WValid = False,
            A1 = 0, A2 = 0, A3 = - 1, M1 = 2, M2 = 3, M3 = 5, MValid = True\<rparr>"

definition m_mag_next :: Measurement where
  "m_mag_next = \<lparr>Measurement.T = 2, W1 = 0, W2 = 0, W3 = 0, WValid = False,
                 A1 = 0, A2 = 0, A3 = - 1, M1 = 2, M2 = 3, M3 = 5, MValid = True\<rparr>"

section \<open>What Compute stores in each field\<close>

lemma Compute_smoothed_fields:
  "Z1 (Compute G qAToB s m) = Z1 (smoothing G s m)"
  "Z2 (Compute G qAToB s m) = Z2 (smoothing G s m)"
  "Z3 (Compute G qAToB s m) = Z3 (smoothing G s m)"
  "W1S (Compute G qAToB s m) = W1S (smoothing G s m)"
  "W2S (Compute G qAToB s m) = W2S (smoothing G s m)"
  "W3S (Compute G qAToB s m) = W3S (smoothing G s m)"
  by (simp_all add: Compute_def Let_def split: prod.splits)

lemma Compute_saved_velocity:
  "W10 (Compute G qAToB s m) = W1 m"
  "W20 (Compute G qAToB s m) = W2 m"
  "W30 (Compute G qAToB s m) = W3 m"
  by (simp_all add: Compute_def Let_def split: prod.splits)

lemma Compute_saved_time: "T (Compute G qAToB s m) = Measurement.T m"
  by (simp add: Compute_def Let_def split: prod.splits)

lemma Compute_quaternion:
  "quaternion_of (Compute G qAToB s m) =
     compose (heading_correction qAToB (smoothing G s m) m)
             (gravity_alignment qAToB (smoothing G s m) m)"
  by (simp add: quaternion_of_def Compute_def Let_def split: prod.splits)

lemma smoothing_keeps_base:
  "e11 (smoothing G s m) = e11 s" "e12 (smoothing G s m) = e12 s" "e13 (smoothing G s m) = e13 s"
  "e21 (smoothing G s m) = e21 s" "e22 (smoothing G s m) = e22 s" "e23 (smoothing G s m) = e23 s"
  "e31 (smoothing G s m) = e31 s" "e32 (smoothing G s m) = e32 s" "e33 (smoothing G s m) = e33 s"
  "N1 (smoothing G s m) = N1 s" "N2 (smoothing G s m) = N2 s" "N3 (smoothing G s m) = N3 s"
  "T (smoothing G s m) = T s"
  by (simp_all add: smoothing_def startup_def Let_def)

lemma Compute_keeps_matrix:
  "e11 (Compute G qAToB s m) = e11 s" "e12 (Compute G qAToB s m) = e12 s"
  "e13 (Compute G qAToB s m) = e13 s" "e21 (Compute G qAToB s m) = e21 s"
  "e22 (Compute G qAToB s m) = e22 s" "e23 (Compute G qAToB s m) = e23 s"
  "e31 (Compute G qAToB s m) = e31 s" "e32 (Compute G qAToB s m) = e32 s"
  "e33 (Compute G qAToB s m) = e33 s"
  by (simp_all add: Compute_def Let_def smoothing_keeps_base split: prod.splits)

lemma Compute_north:
  "N1 (Compute G qAToB s m) =
     (if MValid m then M1 m * e11 s + M2 m * e12 s + M3 m * e13 s else N1 s)"
  "N2 (Compute G qAToB s m) =
     (if MValid m then M1 m * e21 s + M2 m * e22 s + M3 m * e23 s else N2 s)"
  "N3 (Compute G qAToB s m) =
     (if MValid m then M1 m * e31 s + M2 m * e32 s + M3 m * e33 s else N3 s)"
  by (simp_all add: Compute_def Let_def smoothing_keeps_base split: prod.splits)

subsection \<open>The smoothing stage\<close>

lemma smoothing_invalid:
  assumes "\<not> WValid m"
  shows "Z1 (smoothing G s m) = 0" "Z2 (smoothing G s m) = 0" "Z3 (smoothing G s m) = 0"
    "W1S (smoothing G s m) = 0" "W2S (smoothing G s m) = 0" "W3S (smoothing G s m) = 0"
    "W10 (smoothing G s m) = 0" "W20 (smoothing G s m) = 0" "W30 (smoothing G s m) = 0"
  using assms by (simp_all add: smoothing_def)

lemma smoothing_valid:
  assumes "WValid m"
  shows "W1S (smoothing G s m) = KSHORT * W1 m + (1 - KSHORT) * W1S s"
    "W2S (smoothing G s m) = KSHORT * W2 m + (1 - KSHORT) * W2S s"
    "W3S (smoothing G s m) = KSHORT * W3 m + (1 - KSHORT) * W3S s"
    "Z1 (smoothing G s m) =
       KSHORT * (W1 m - W10 (startup s m)) / (Measurement.T m - T s) / G + (1 - KSHORT) * Z1 s"
    "Z2 (smoothing G s m) =
       KSHORT * (W2 m - W20 (startup s m)) / (Measurement.T m - T s) / G + (1 - KSHORT) * Z2 s"
    "Z3 (smoothing G s m) =
       KSHORT * (W3 m - W30 (startup s m)) / (Measurement.T m - T s) / G + (1 - KSHORT) * Z3 s"
  using assms by (simp_all add: smoothing_def startup_def Let_def)

lemma startup_previous_velocity:
  "W10 (startup s m) = (if W10 s = 0 \<and> W20 s = 0 \<and> W30 s = 0 then W1 m else W10 s)"
  "W20 (startup s m) = (if W10 s = 0 \<and> W20 s = 0 \<and> W30 s = 0 then W2 m else W20 s)"
  "W30 (startup s m) = (if W10 s = 0 \<and> W20 s = 0 \<and> W30 s = 0 then W3 m else W30 s)"
  by (simp_all add: startup_def)

subsection \<open>The magnetometer block is read by lines 133-137 only\<close>

lemma smoothing_ignores_magnetometer:
  "smoothing G (s\<lparr>N1 := x, N2 := y, N3 := z\<rparr>) (m\<lparr>M1 := a, M2 := b, M3 := c, MValid := v\<rparr>)
     = (smoothing G s m)\<lparr>N1 := x, N2 := y, N3 := z\<rparr>"
  by (simp add: smoothing_def startup_def Let_def)

lemma alignment_ignores_magnetometer:
  "gravity_alignment qAToB (s\<lparr>N1 := x, N2 := y, N3 := z\<rparr>)
       (m\<lparr>M1 := a, M2 := b, M3 := c, MValid := v\<rparr>)
     = gravity_alignment qAToB s m"
  by (simp add: gravity_alignment_def apparent_gravity_def)

lemma correction_ignores_magnetometer:
  "heading_correction qAToB (s\<lparr>N1 := x, N2 := y, N3 := z\<rparr>)
       (m\<lparr>M1 := a, M2 := b, M3 := c, MValid := v\<rparr>)
     = heading_correction qAToB s m"
  by (simp add: heading_correction_def alignment_ignores_magnetometer reference_heading_def
      apparent_gravity_def)

text \<open>
  What holds of lines 133-137 for every state and sample: without \<open>MValid\<close> the
  north-reference vector is left as it is; with \<open>MValid\<close> it is the magnetometer
  vector projected through the matrix elements that the state held at entry; and the
  stored quaternion depends neither on the sample's magnetometer block nor on the
  stored north-reference vector.
\<close>

lemma magnetometer_frame:
  "north_of (Compute G qAToB s m)
     = (if MValid m then project (matrix_of s) (M1 m, M2 m, M3 m) else north_of s)"
  "matrix_of (Compute G qAToB s m) = matrix_of s"
  "quaternion_of (Compute G qAToB (s\<lparr>N1 := x, N2 := y, N3 := z\<rparr>)
                     (m\<lparr>M1 := a, M2 := b, M3 := c, MValid := v\<rparr>))
     = quaternion_of (Compute G qAToB s m)"
  by (simp_all add: north_of_def matrix_of_def project_def Compute_north Compute_keeps_matrix
      Compute_quaternion smoothing_ignores_magnetometer alignment_ignores_magnetometer
      correction_ignores_magnetometer)

text \<open>
  No call of a replay assigns \<open>e11..e33\<close>: from a state whose matrix elements and
  north-reference vector are zero, as the fresh state's are, every state of the replay
  has them zero, whatever the samples.
\<close>

lemma replay_keeps_null_matrix:
  assumes "matrix_of s = ((0, 0, 0), (0, 0, 0), (0, 0, 0))" and "north_of s = (0, 0, 0)"
    and "s' \<in> set (replay G qAToB s ms)"
  shows "matrix_of s' = ((0, 0, 0), (0, 0, 0), (0, 0, 0)) \<and> north_of s' = (0, 0, 0)"
  using assms
proof (induction ms arbitrary: s)
  case Nil
  then show ?case by simp
next
  case (Cons m ms)
  have step: "matrix_of (Compute G qAToB s m) = ((0, 0, 0), (0, 0, 0), (0, 0, 0))"
    "north_of (Compute G qAToB s m) = (0, 0, 0)"
    using Cons.prems(1,2)
    by (simp_all add: matrix_of_def north_of_def Compute_keeps_matrix Compute_north)
  from Cons.prems(3) consider "s' = Compute G qAToB s m"
    | "s' \<in> set (replay G qAToB (Compute G qAToB s m) ms)"
    by auto
  then show ?case
  proof cases
    case 1
    with step show ?thesis by simp
  next
    case 2
    with Cons.IH [OF step] show ?thesis by simp
  qed
qed

subsection \<open>The composition of lines 122-125 and the Hamilton product\<close>

lemma compose_hamilton_iff:
  "compose (p0, p1, p2, p3) (q0, q1, q2, q3) = hamilton (p0, p1, p2, p3) (q0, q1, q2, q3)
     \<longleftrightarrow> p2 = 0 \<or> p2 = q2"
  by (auto simp add: compose_def hamilton_def)

text \<open>Lines 97-103 divide \<open>u\<close> by its own norm, for all arguments.\<close>

lemma perp_u_normalized_cross: "perp_u ae xe = normalized_cross ae xe"
  by (simp add: perp_u_def normalized_cross_def split: prod.splits)

subsection \<open>The samples and states, evaluated\<close>

lemma sample_fields:
  "\<not> WValid m_gap" "W1 m_gap = 1" "W2 m_gap = 2" "W3 m_gap = 3" "\<not> MValid m_gap"
  "A1 m_gap = 0" "A2 m_gap = 0" "A3 m_gap = - 1" "Measurement.T m_gap = 1"
  "WValid m_first" "W1 m_first = 1" "W2 m_first = 0" "W3 m_first = 0" "\<not> MValid m_first"
  "A1 m_first = 0" "A2 m_first = 0" "A3 m_first = - 1" "Measurement.T m_first = 1"
  "WValid m_descent" "W1 m_descent = 3" "W2 m_descent = 0" "W3 m_descent = 4"
  "A1 m_descent = 0" "A2 m_descent = 0" "A3 m_descent = - 1" "Measurement.T m_descent = 1"
  "WValid m_braking" "W1 m_braking = 0" "W2 m_braking = 1" "W3 m_braking = 0"
  "A1 m_braking = 0" "A2 m_braking = 3 / 4" "A3 m_braking = - 1" "Measurement.T m_braking = 1"
  "\<not> WValid m_mag" "MValid m_mag" "M1 m_mag = 2" "M2 m_mag = 3" "M3 m_mag = 5"
  "A1 m_mag = 0" "A2 m_mag = 0" "A3 m_mag = - 1"
  "\<not> WValid m_mag_next" "MValid m_mag_next" "M1 m_mag_next = 2" "M2 m_mag_next = 3"
  "M3 m_mag_next = 5" "A1 m_mag_next = 0" "A2 m_mag_next = 0" "A3 m_mag_next = - 1"
  by (simp_all add: m_gap_def m_first_def m_descent_def m_braking_def m_mag_def m_mag_next_def)

lemma fresh_fields:
  "Z1 s_fresh = 0" "Z2 s_fresh = 0" "Z3 s_fresh = 0"
  "W10 s_fresh = 0" "W20 s_fresh = 0" "W30 s_fresh = 0"
  "W1S s_fresh = 0" "W2S s_fresh = 0" "W3S s_fresh = 0" "T s_fresh = 0"
  by (simp_all add: s_fresh_def InitializeHeuristic_def)

lemma fresh_matrix:
  "e11 s_fresh = 0" "e12 s_fresh = 0" "e13 s_fresh = 0"
  "e21 s_fresh = 0" "e22 s_fresh = 0" "e23 s_fresh = 0"
  "e31 s_fresh = 0" "e32 s_fresh = 0" "e33 s_fresh = 0"
  "N1 s_fresh = 0" "N2 s_fresh = 0" "N3 s_fresh = 0"
  by (simp_all add: s_fresh_def InitializeHeuristic_def)

lemma braking_fields:
  "Z1 s_braking = 0" "Z2 s_braking = - 15 / 16" "Z3 s_braking = 0"
  "W10 s_braking = 0" "W20 s_braking = 1" "W30 s_braking = 0"
  "W1S s_braking = 0" "W2S s_braking = 1" "W3S s_braking = 0" "T s_braking = 0"
  by (simp_all add: s_braking_def fresh_fields)

lemma sqrt_25_16: "sqrt (25 / 16) = 5 / 4"
  by (rule real_sqrt_unique) (simp_all add: power2_eq_square)

lemma sqrt_625_64: "sqrt (625 / 64) = 25 / 8"
  by (rule real_sqrt_unique) (simp_all add: power2_eq_square)

lemma sqrt_9_25: "sqrt (9 / 25) = 3 / 5"
  by (rule real_sqrt_unique) (simp_all add: power2_eq_square)

lemma sqrt2_lower: "7 / 5 < sqrt 2"
  by (rule real_less_rsqrt) (simp add: power2_eq_square)

text \<open>Equal vectors: the minimal rotation is the identity.\<close>

lemma QuaternionAToB_down: "QuaternionAToB 0 0 (- 1) 0 0 (- 1) = (1, 0, 0, 0)"
  by (simp add: QuaternionAToB_def Let_def)

lemma QuaternionAToB_tilted: "QuaternionAToB 0 (3 / 4) (- 1) 0 (3 / 4) (- 1) = (1, 0, 0, 0)"
  by (simp add: QuaternionAToB_def Let_def sqrt_25_16 sqrt_625_64)

text \<open>
  The call \<open>Compute\<close> on \<open>s_braking\<close> and \<open>m_braking\<close>, local by local: the smoothed
  fields after line 63, \<open>ae\<close> (lines 66-68), \<open>q\<close> (line 72), \<open>we\<close> (lines 78-88),
  \<open>u\<close> (lines 97-103), \<open>v\<close> (lines 105-111), \<open>alpha\<close> (line 112), \<open>p\<close> (lines 116-120)
  and the stored quaternion (lines 122-125).
\<close>

lemma braking_smoothed:
  "Z1 (smoothing G s_braking m_braking) = 0"
  "Z2 (smoothing G s_braking m_braking) = - 3 / 4"
  "Z3 (smoothing G s_braking m_braking) = 0"
  "W1S (smoothing G s_braking m_braking) = 0"
  "W2S (smoothing G s_braking m_braking) = 1"
  "W3S (smoothing G s_braking m_braking) = 0"
  by (simp_all add: smoothing_valid startup_previous_velocity sample_fields braking_fields
      KSHORT_def)

lemma braking_ae: "apparent_gravity (smoothing G s_braking m_braking) = (0, 3 / 4, - 1)"
  by (simp add: apparent_gravity_def braking_smoothed)

lemma braking_q:
  "gravity_alignment QuaternionAToB (smoothing G s_braking m_braking) m_braking = (1, 0, 0, 0)"
  by (simp add: gravity_alignment_def braking_ae sample_fields QuaternionAToB_tilted)

lemma braking_we: "reference_heading (smoothing G s_braking m_braking) m_braking = (0, 1, 0)"
  by (simp add: reference_heading_def braking_smoothed sample_fields)

lemma braking_u:
  "perp_u (0, 3 / 4, - 1) (forward_axis (1, 0, 0, 0)) = (0, - (4 / 5), - (3 / 5))"
  by (simp add: perp_u_def forward_axis_def Let_def sqrt_25_16)

lemma braking_v: "perp_v (0, 3 / 4, - 1) (0, 1, 0) (0, - (4 / 5), - (3 / 5)) = (1, 0, 0)"
  by (simp add: perp_v_def Let_def)

lemma braking_alpha: "heading_angle (0, - (4 / 5), - (3 / 5)) (1, 0, 0) = pi / 2"
  by (simp add: heading_angle_def)

lemma braking_p:
  "heading_correction QuaternionAToB (smoothing G s_braking m_braking) m_braking
     = (sqrt 2 / 2, 0, sqrt 2 / 2 * (3 / 4), - (sqrt 2 / 2))"
  by (simp add: heading_correction_def Let_def braking_ae braking_q braking_we braking_u
      braking_v braking_alpha rotation_about_def cos_45 sin_45)

lemma braking_quaternion:
  "quaternion_of (Compute G QuaternionAToB s_braking m_braking)
     = (sqrt 2 / 2 - 9 / 32, 0, sqrt 2 / 2 * (3 / 4), - (sqrt 2 / 2))"
  by (simp add: Compute_quaternion braking_p braking_q compose_def)

text \<open>
  The same quaternion is stored by the second of two calls that start from the fresh
  state, so the state \<open>s_braking\<close> stands for states that a replay reaches.
\<close>

lemma cruise_fields:
  "WValid m_cruise" "W1 m_cruise = 0" "W2 m_cruise = 4" "W3 m_cruise = 0"
  "Measurement.T m_cruise = 1"
  "WValid m_slowed" "W1 m_slowed = 0" "W2 m_slowed = 1 / 4" "W3 m_slowed = 0"
  "Measurement.T m_slowed = 2" "A1 m_slowed = 0" "A2 m_slowed = 3 / 4" "A3 m_slowed = - 1"
  by (simp_all add: m_cruise_def m_slowed_def)

lemma sqrt_4761_10000: "sqrt (4761 / 10000) = 69 / 100"
  by (rule real_sqrt_unique) (simp_all add: power2_eq_square)

lemma slowed_smoothed:
  "Z1 (smoothing 1 (Compute 1 QuaternionAToB s_fresh m_cruise) m_slowed) = 0"
  "Z2 (smoothing 1 (Compute 1 QuaternionAToB s_fresh m_cruise) m_slowed) = - 3 / 4"
  "Z3 (smoothing 1 (Compute 1 QuaternionAToB s_fresh m_cruise) m_slowed) = 0"
  "W1S (smoothing 1 (Compute 1 QuaternionAToB s_fresh m_cruise) m_slowed) = 0"
  "W2S (smoothing 1 (Compute 1 QuaternionAToB s_fresh m_cruise) m_slowed) = 69 / 100"
  "W3S (smoothing 1 (Compute 1 QuaternionAToB s_fresh m_cruise) m_slowed) = 0"
  by (simp_all add: smoothing_valid startup_previous_velocity cruise_fields fresh_fields
      Compute_smoothed_fields Compute_saved_velocity Compute_saved_time KSHORT_def)

lemma slowed_locals:
  "apparent_gravity (smoothing 1 (Compute 1 QuaternionAToB s_fresh m_cruise) m_slowed)
     = (0, 3 / 4, - 1)"
  "gravity_alignment QuaternionAToB
     (smoothing 1 (Compute 1 QuaternionAToB s_fresh m_cruise) m_slowed) m_slowed = (1, 0, 0, 0)"
  "reference_heading (smoothing 1 (Compute 1 QuaternionAToB s_fresh m_cruise) m_slowed) m_slowed
     = (0, 1, 0)"
  by (simp_all add: apparent_gravity_def gravity_alignment_def reference_heading_def
      slowed_smoothed cruise_fields QuaternionAToB_tilted sqrt_4761_10000)

lemma braking_reached_by_replay:
  "map quaternion_of (replay 1 QuaternionAToB s_fresh [m_cruise, m_slowed]) ! 1
     = quaternion_of (Compute 1 QuaternionAToB s_braking m_braking)"
  by (simp add: Compute_quaternion heading_correction_def Let_def slowed_locals
      braking_ae braking_q braking_we)

text \<open>The call \<open>Compute\<close> on the fresh state and \<open>m_descent\<close>, local by local.\<close>

lemma descent_smoothed:
  "Z1 (smoothing G s_fresh m_descent) = 0"
  "Z2 (smoothing G s_fresh m_descent) = 0"
  "Z3 (smoothing G s_fresh m_descent) = 0"
  "W1S (smoothing G s_fresh m_descent) = 3 / 5"
  "W2S (smoothing G s_fresh m_descent) = 0"
  "W3S (smoothing G s_fresh m_descent) = 4 / 5"
  by (simp_all add: smoothing_valid startup_previous_velocity sample_fields fresh_fields
      KSHORT_def)

lemma descent_ae: "apparent_gravity (smoothing G s_fresh m_descent) = (0, 0, - 1)"
  by (simp add: apparent_gravity_def descent_smoothed)

lemma descent_q:
  "gravity_alignment QuaternionAToB (smoothing G s_fresh m_descent) m_descent = (1, 0, 0, 0)"
  by (simp add: gravity_alignment_def descent_ae sample_fields QuaternionAToB_down)

lemma descent_we:
  "reference_heading (smoothing G s_fresh m_descent) m_descent = (3 / 5, 0, 4 / 5)"
  by (simp add: reference_heading_def descent_smoothed sample_fields)

lemma descent_u: "perp_u (0, 0, - 1) (forward_axis (1, 0, 0, 0)) = (0, - 1, 0)"
  by (simp add: perp_u_def forward_axis_def Let_def)

lemma descent_u_spec: "normalized_cross (0, 0, - 1) (forward_axis (1, 0, 0, 0)) = (0, - 1, 0)"
  by (simp add: normalized_cross_def forward_axis_def Let_def)

lemma descent_v: "perp_v (0, 0, - 1) (3 / 5, 0, 4 / 5) (0, - 1, 0) = (0, - (3 / 5), 0)"
  by (simp add: perp_v_def Let_def)

lemma descent_v_spec: "normalized_cross (0, 0, - 1) (3 / 5, 0, 4 / 5) = (0, - 1, 0)"
  by (simp add: normalized_cross_def Let_def sqrt_9_25)

text \<open>
  A call at rest without GPS velocity, on any state: \<open>ae = (0, 0, -1)\<close>, \<open>q\<close> is the
  identity, \<open>we = (0, 1, 0)\<close>, \<open>u = (0, -1, 0)\<close>, \<open>v = (1, 0, 0)\<close>, \<open>alpha\<close> is a
  quarter turn, and the stored quaternion is that of \<open>p\<close>.
\<close>

lemma level_v: "perp_v (0, 0, - 1) (0, 1, 0) (0, - 1, 0) = (1, 0, 0)"
  by (simp add: perp_v_def Let_def)

lemma level_alpha: "heading_angle (0, - 1, 0) (1, 0, 0) = pi / 2"
  by (simp add: heading_angle_def)

lemma level_quaternion:
  assumes "\<not> WValid m" and "A1 m = 0" and "A2 m = 0" and "A3 m = - 1"
  shows "quaternion_of (Compute G QuaternionAToB s m) = (sqrt 2 / 2, 0, 0, - (sqrt 2 / 2))"
proof -
  let ?s1 = "smoothing G s m"
  have ae: "apparent_gravity ?s1 = (0, 0, - 1)"
    using assms(1) by (simp add: apparent_gravity_def smoothing_invalid)
  have q: "gravity_alignment QuaternionAToB ?s1 m = (1, 0, 0, 0)"
    using assms(2-4) by (simp add: gravity_alignment_def ae QuaternionAToB_down)
  have we: "reference_heading ?s1 m = (0, 1, 0)"
    using assms(1) by (simp add: reference_heading_def)
  have p: "heading_correction QuaternionAToB ?s1 m = (sqrt 2 / 2, 0, 0, - (sqrt 2 / 2))"
    by (simp add: heading_correction_def Let_def ae q we descent_u level_v level_alpha
        rotation_about_def cos_45 sin_45)
  show ?thesis
    by (simp add: Compute_quaternion p q compose_def)
qed

lemma quarter_turn_matrix:
  "rotation_matrix (sqrt 2 / 2, 0, 0, - (sqrt 2 / 2)) = ((0, 1, 0), (- 1, 0, 0), (0, 0, 1))"
  by (simp add: rotation_matrix_def)

lemma first_column_is_forward_axis:
  "(case rotation_matrix q of ((r11, r12, r13), (r21, r22, r23), (r31, r32, r33)) \<Rightarrow>
      (r11, r21, r31)) = forward_axis q"
  by (simp add: rotation_matrix_def forward_axis_def algebra_simps split: prod.splits)

section \<open>The claims\<close>

text \<open>
  C1.  The claim: after every call to \<open>Compute\<close> the stored quaternion
  \<open>(E0, E1, E2, E3)\<close> has norm within a small epsilon of 1 on well-conditioned inputs.
  On \<open>s_braking\<close> and \<open>m_braking\<close>, for every \<open>G\<close>, no divisor is near zero (\<open>T\<close>
  advances by 1, \<open>ww = 1\<close>, \<open>uu = 5/4\<close>, \<open>vv = 1\<close>), the argument of \<open>math.Acos\<close>
  is 0 and \<open>q\<close> is the identity, of norm 1; yet the norm of the stored quaternion is
  below 0.99, in exact arithmetic.  Line 122 contributes (its \<open>p2*p2\<close>), and so does
  \<open>p\<close> itself: lines 116-120 build it on the axis \<open>ae\<close>, which is not a unit vector
  here, so that the squared norm of \<open>p\<close> is \<open>41/32\<close>.
\<close>

theorem C1_norm_is_not_one_under_acceleration:
  "quaternion_of (Compute G QuaternionAToB s_braking m_braking)
     = (sqrt 2 / 2 - 9 / 32, 0, sqrt 2 / 2 * (3 / 4), - (sqrt 2 / 2))
   \<and> norm_quat (quaternion_of (Compute G QuaternionAToB s_braking m_braking)) < 99 / 100
   \<and> norm_quat (gravity_alignment QuaternionAToB (smoothing G s_braking m_braking) m_braking)
        = 1
   \<and> (norm_quat
         (heading_correction QuaternionAToB (smoothing G s_braking m_braking) m_braking))\<^sup>2
        = 41 / 32"
proof -
  let ?n = "norm_quat (quaternion_of (Compute G QuaternionAToB s_braking m_braking))"
  have sq: "?n\<^sup>2 = 1 + 369 / 1024 - 9 / 32 * sqrt 2"
  proof -
    have "0 \<le> (sqrt 2 / 2 - 9 / 32) * (sqrt 2 / 2 - 9 / 32)
        + sqrt 2 / 2 * (3 / 4) * (sqrt 2 / 2 * (3 / 4)) + sqrt 2 / 2 * (sqrt 2 / 2)"
      by (intro add_nonneg_nonneg) simp_all
    then have "?n\<^sup>2 = (sqrt 2 / 2 - 9 / 32) * (sqrt 2 / 2 - 9 / 32)
        + sqrt 2 / 2 * (3 / 4) * (sqrt 2 / 2 * (3 / 4)) + sqrt 2 / 2 * (sqrt 2 / 2)"
      by (simp add: braking_quaternion norm_quat_def)
    also have "\<dots> = 1 + 369 / 1024 - 9 / 32 * sqrt 2"
      by (simp add: algebra_simps)
    finally show ?thesis .
  qed
  have "1 + 369 / 1024 - 9 / 32 * sqrt 2 < (99 / 100)\<^sup>2"
    using sqrt2_lower by (simp add: power2_eq_square)
  with sq have "?n\<^sup>2 < (99 / 100)\<^sup>2"
    by simp
  then have below: "?n < 99 / 100"
    by (rule power2_less_imp_less) simp
  have p: "(norm_quat (sqrt 2 / 2, 0, sqrt 2 / 2 * (3 / 4), - (sqrt 2 / 2)))\<^sup>2 = 41 / 32"
  proof -
    have "0 \<le> sqrt 2 / 2 * (sqrt 2 / 2) + sqrt 2 / 2 * (3 / 4) * (sqrt 2 / 2 * (3 / 4))
        + sqrt 2 / 2 * (sqrt 2 / 2)"
      by (intro add_nonneg_nonneg) simp_all
    then show ?thesis
      by (simp add: norm_quat_def)
  qed
  show ?thesis
    using below p by (simp add: braking_quaternion braking_p braking_q norm_quat_def)
qed

text \<open>
  C2.  The claim: the stored orientation is the Hamilton product \<open>p \<otimes> q\<close> in all four
  components, in particular \<open>E0 = p0*q0 - p1*q1 - p2*q2 - p3*q3\<close>.  Line 122 stores
  \<open>p0*q0 - p1*q1 - p2*p2 - p3*q3\<close>.  On \<open>s_braking\<close> and \<open>m_braking\<close>, for every \<open>G\<close>,
  the stored quaternion has \<open>E0 = sqrt 2 / 2 - 9/32\<close>, while the Hamilton product of the
  \<open>p\<close> and \<open>q\<close> of that call has first component \<open>sqrt 2 / 2\<close>; the other three
  components agree.
\<close>

theorem C2_E0_is_not_the_Hamilton_component:
  "quaternion_of (Compute G QuaternionAToB s_braking m_braking)
     = (sqrt 2 / 2 - 9 / 32, 0, sqrt 2 / 2 * (3 / 4), - (sqrt 2 / 2))
   \<and> hamilton (heading_correction QuaternionAToB (smoothing G s_braking m_braking) m_braking)
              (gravity_alignment QuaternionAToB (smoothing G s_braking m_braking) m_braking)
     = (sqrt 2 / 2, 0, sqrt 2 / 2 * (3 / 4), - (sqrt 2 / 2))
   \<and> E0 (Compute G QuaternionAToB s_braking m_braking) \<noteq> sqrt 2 / 2"
proof -
  have "E0 (Compute G QuaternionAToB s_braking m_braking) = sqrt 2 / 2 - 9 / 32"
    using braking_quaternion [of G] by (simp add: quaternion_of_def)
  then show ?thesis
    by (simp add: braking_quaternion braking_p braking_q hamilton_def)
qed

text \<open>
  C3.  The claim: \<open>v = ae \<times> we\<close> is divided by its own Euclidean norm.  Line 108
  computes the divisor \<open>vv\<close> from \<open>u1, u2, u3\<close>.  On the fresh state and \<open>m_descent\<close>,
  for every \<open>G\<close>: \<open>u\<close> is the normalised cross product of \<open>ae\<close> and \<open>xe\<close>, but
  \<open>v = (0, -3/5, 0)\<close> where the normalised cross product of \<open>ae\<close> and \<open>we\<close> is
  \<open>(0, -1, 0)\<close>; the angle of line 112 is \<open>arccos (3/5)\<close>, not 0.
\<close>

theorem C3_v_is_divided_by_the_norm_of_u:
  "(let s1 = smoothing G s_fresh m_descent;
        ae = apparent_gravity s1;
        we = reference_heading s1 m_descent;
        xe = forward_axis (gravity_alignment QuaternionAToB s1 m_descent);
        u = perp_u ae xe;
        v = perp_v ae we u
    in u = normalized_cross ae xe
     \<and> v = (0, - (3 / 5), 0)
     \<and> normalized_cross ae we = (0, - 1, 0)
     \<and> heading_angle u v = arccos (3 / 5)
     \<and> heading_angle u (normalized_cross ae we) = 0
     \<and> heading_angle u v \<noteq> 0)"
proof -
  have "0 < arccos (3 / 5 :: real)"
    using arccos_lt_bounded [of "3 / 5"] by simp
  then show ?thesis
    by (simp add: Let_def descent_ae descent_q descent_we descent_u descent_u_spec descent_v
        descent_v_spec heading_angle_def)
qed

text \<open>
  C4.  For every prior state and every sample with \<open>WValid = false\<close>, the fields
  \<open>Z1, Z2, Z3\<close> and \<open>W1S, W2S, W3S\<close> are exactly zero after \<open>Compute\<close>, whatever they
  held before the call.
\<close>

theorem C4_invalid_velocity_zeroes_Z_and_WS:
  assumes "\<not> WValid m"
  shows "Z1 (Compute G qAToB s m) = 0 \<and> Z2 (Compute G qAToB s m) = 0
       \<and> Z3 (Compute G qAToB s m) = 0 \<and> W1S (Compute G qAToB s m) = 0
       \<and> W2S (Compute G qAToB s m) = 0 \<and> W3S (Compute G qAToB s m) = 0"
  using assms by (simp add: Compute_smoothed_fields smoothing_invalid)

text \<open>C4, witness: the state \<open>s_braking\<close> holds \<open>Z2 = -15/16\<close> and \<open>W2S = 1\<close>.\<close>

theorem C4_witness:
  "\<not> WValid m_gap
   \<and> Z1 (Compute 1 QuaternionAToB s_braking m_gap) = 0
   \<and> Z2 (Compute 1 QuaternionAToB s_braking m_gap) = 0
   \<and> Z3 (Compute 1 QuaternionAToB s_braking m_gap) = 0
   \<and> W1S (Compute 1 QuaternionAToB s_braking m_gap) = 0
   \<and> W2S (Compute 1 QuaternionAToB s_braking m_gap) = 0
   \<and> W3S (Compute 1 QuaternionAToB s_braking m_gap) = 0
   \<and> Z2 s_braking = - 15 / 16 \<and> W2S s_braking = 1"
  using C4_invalid_velocity_zeroes_Z_and_WS [of m_gap 1 QuaternionAToB s_braking]
  by (simp add: sample_fields braking_fields)

text \<open>
  C5.  The claim: after \<open>Compute\<close> on a sample with \<open>WValid = false\<close> the fields
  \<open>W10, W20, W30\<close> are zero.  Lines 54-56 store zero in them, and lines 128-130 then
  store the sample's \<open>W1, W2, W3\<close> whatever \<open>WValid\<close> is.  On the fresh state and
  \<open>m_gap\<close>, whose \<open>W1, W2, W3\<close> are \<open>1, 2, 3\<close>: the three fields are zero after the
  smoothing stage, and \<open>1, 2, 3\<close> when \<open>Compute\<close> returns.
\<close>

theorem C5_saved_velocity_overwrites_the_reset:
  "W10 (smoothing 1 s_fresh m_gap) = 0 \<and> W20 (smoothing 1 s_fresh m_gap) = 0
   \<and> W30 (smoothing 1 s_fresh m_gap) = 0
   \<and> W10 (Compute 1 QuaternionAToB s_fresh m_gap) = 1
   \<and> W20 (Compute 1 QuaternionAToB s_fresh m_gap) = 2
   \<and> W30 (Compute 1 QuaternionAToB s_fresh m_gap) = 3"
  by (simp add: Compute_saved_velocity smoothing_invalid sample_fields)

text \<open>
  C6, as claimed: for \<open>WValid = true\<close> each \<open>Z\<close> becomes
  \<open>0.2 * (W_new - W_prev) / (T_new - T_prev) / G + 0.8 * Z\<close> with \<open>W_prev\<close> the stored
  \<open>W10, W20, W30\<close> at entry.  On the fresh state, whose \<open>W10, W20, W30\<close> are zero, and
  \<open>m_first\<close>, whose \<open>W1\<close> is 1, the formula gives \<open>Z1 = 0.2\<close>; \<open>Compute\<close> stores 0.
\<close>

theorem C6_counterexample:
  "Z1 (Compute 1 QuaternionAToB s_fresh m_first)
     \<noteq> 0.2 * (W1 m_first - W10 s_fresh) / (Measurement.T m_first - T s_fresh) / 1
         + 0.8 * Z1 s_fresh"
  by (simp add: Compute_smoothed_fields smoothing_valid startup_previous_velocity sample_fields
      fresh_fields)

text \<open>
  C6, amended: for every sample with \<open>WValid = true\<close>, \<open>Compute\<close> updates each
  smoothed-velocity axis as \<open>W_S' = 0.2 * W_new + 0.8 * W_S\<close> (\<open>KSHORT = 0.2\<close>), and each
  smoothed-acceleration axis as \<open>Z' = 0.2 * (W_new - W_prev) / (T_new - T_prev) / G +
  0.8 * Z\<close>, where \<open>T_prev\<close> is the stored \<open>T\<close> at entry and \<open>W_prev\<close> is the stored
  \<open>W10, W20, W30\<close> at entry unless all three are exactly zero, in which case \<open>W_prev\<close>
  is the current velocity \<open>W1, W2, W3\<close> of the sample.
\<close>

theorem C6_smoothing_update:
  assumes "WValid m"
  shows "W1S (Compute G qAToB s m) = 0.2 * W1 m + 0.8 * W1S s
       \<and> W2S (Compute G qAToB s m) = 0.2 * W2 m + 0.8 * W2S s
       \<and> W3S (Compute G qAToB s m) = 0.2 * W3 m + 0.8 * W3S s
       \<and> Z1 (Compute G qAToB s m) =
           0.2 * (W1 m - (if W10 s = 0 \<and> W20 s = 0 \<and> W30 s = 0 then W1 m else W10 s))
             / (Measurement.T m - T s) / G + 0.8 * Z1 s
       \<and> Z2 (Compute G qAToB s m) =
           0.2 * (W2 m - (if W10 s = 0 \<and> W20 s = 0 \<and> W30 s = 0 then W2 m else W20 s))
             / (Measurement.T m - T s) / G + 0.8 * Z2 s
       \<and> Z3 (Compute G qAToB s m) =
           0.2 * (W3 m - (if W10 s = 0 \<and> W20 s = 0 \<and> W30 s = 0 then W3 m else W30 s))
             / (Measurement.T m - T s) / G + 0.8 * Z3 s
       \<and> KSHORT = 0.2"
  using assms
  by (simp add: Compute_smoothed_fields smoothing_valid startup_previous_velocity KSHORT_def)

text \<open>
  C6, witness: on \<open>s_braking\<close>, whose stored velocity is \<open>(0, 1, 0)\<close>, and \<open>m_first\<close>,
  whose velocity is \<open>(1, 0, 0)\<close>, one second later.
\<close>

theorem C6_witness:
  "WValid m_first
   \<and> W1S (Compute 1 QuaternionAToB s_braking m_first) = 1 / 5
   \<and> W2S (Compute 1 QuaternionAToB s_braking m_first) = 4 / 5
   \<and> Z1 (Compute 1 QuaternionAToB s_braking m_first) = 1 / 5
   \<and> Z2 (Compute 1 QuaternionAToB s_braking m_first) = - 19 / 20"
  using C6_smoothing_update [of m_first 1 QuaternionAToB s_braking]
  by (simp add: sample_fields braking_fields)

text \<open>
  C7.  For every sample with \<open>WValid = true\<close>: if \<open>W10, W20, W30\<close> are exactly zero at
  entry, lines 38-40 first store the current velocity in them, so that the difference
  \<open>W_new - W_prev\<close> that lines 50-52 read is exactly zero on each axis and the sample
  adds nothing to \<open>Z\<close>.  The last part is stated for \<open>T_new \<noteq> T_prev\<close> and \<open>G \<noteq> 0\<close>,
  where a float64 run divides zero by a non-zero number.
\<close>

theorem C7_startup_seeding:
  assumes "WValid m" and "W10 s = 0" and "W20 s = 0" and "W30 s = 0"
  shows "W10 (startup s m) = W1 m \<and> W20 (startup s m) = W2 m \<and> W30 (startup s m) = W3 m
       \<and> Z1 (Compute G qAToB s m) =
           KSHORT * (W1 m - W10 (startup s m)) / (Measurement.T m - T s) / G
             + (1 - KSHORT) * Z1 s
       \<and> Z2 (Compute G qAToB s m) =
           KSHORT * (W2 m - W20 (startup s m)) / (Measurement.T m - T s) / G
             + (1 - KSHORT) * Z2 s
       \<and> Z3 (Compute G qAToB s m) =
           KSHORT * (W3 m - W30 (startup s m)) / (Measurement.T m - T s) / G
             + (1 - KSHORT) * Z3 s
       \<and> W1 m - W10 (startup s m) = 0 \<and> W2 m - W20 (startup s m) = 0
       \<and> W3 m - W30 (startup s m) = 0
       \<and> (Measurement.T m \<noteq> T s \<and> G \<noteq> 0 \<longrightarrow>
            Z1 (Compute G qAToB s m) = (1 - KSHORT) * Z1 s
          \<and> Z2 (Compute G qAToB s m) = (1 - KSHORT) * Z2 s
          \<and> Z3 (Compute G qAToB s m) = (1 - KSHORT) * Z3 s)"
  using assms
  by (simp add: Compute_smoothed_fields smoothing_valid startup_previous_velocity)

text \<open>C7, witness: the first valid sample on the fresh state.\<close>

theorem C7_witness:
  "WValid m_first \<and> W10 s_fresh = 0 \<and> W20 s_fresh = 0 \<and> W30 s_fresh = 0
   \<and> Measurement.T m_first \<noteq> T s_fresh \<and> (1::real) \<noteq> 0
   \<and> W10 (startup s_fresh m_first) = 1
   \<and> W1 m_first - W10 (startup s_fresh m_first) = 0
   \<and> Z1 (Compute 1 QuaternionAToB s_fresh m_first) = 0"
  using C7_startup_seeding [of m_first s_fresh 1 QuaternionAToB]
  by (simp add: sample_fields fresh_fields)

text \<open>
  C8.  The claim: with \<open>MValid = true\<close>, \<open>N1, N2, N3\<close> become the magnetometer vector
  projected through the rotation-matrix elements derived from \<open>E\<close>.  Lines 134-136
  read \<open>e11..e33\<close>, which no line of \<open>Compute\<close> derives from \<open>E\<close> or assigns at all.
  Two calls from the fresh state, at rest and without GPS velocity, for every \<open>G\<close>:
  both store the quarter turn \<open>(sqrt 2 / 2, 0, 0, - sqrt 2 / 2)\<close>, so \<open>E\<close> is that
  unit quaternion before and after the second call.  Its matrix takes the magnetometer
  vector \<open>(2, 3, 5)\<close> to \<open>(3, -2, 5)\<close>, and the transposed matrix to \<open>(-3, 2, 5)\<close>;
  the second call stores \<open>(0, 0, 0)\<close>, the projection through the matrix elements of
  the state, which are still the zeros of the fresh state.
\<close>

theorem C8_north_is_projected_through_a_stale_matrix:
  "(let s1 = Compute G QuaternionAToB s_fresh m_mag;
        s2 = Compute G QuaternionAToB s1 m_mag_next;
        b = (M1 m_mag_next, M2 m_mag_next, M3 m_mag_next)
    in MValid m_mag_next \<and> b = (2, 3, 5)
     \<and> quaternion_of s1 = (sqrt 2 / 2, 0, 0, - (sqrt 2 / 2))
     \<and> quaternion_of s2 = (sqrt 2 / 2, 0, 0, - (sqrt 2 / 2))
     \<and> rotation_matrix (quaternion_of s2) = ((0, 1, 0), (- 1, 0, 0), (0, 0, 1))
     \<and> project (rotation_matrix (quaternion_of s2)) b = (3, - 2, 5)
     \<and> project (transposed (rotation_matrix (quaternion_of s2))) b = (- 3, 2, 5)
     \<and> matrix_of s1 = ((0, 0, 0), (0, 0, 0), (0, 0, 0))
     \<and> matrix_of s2 = ((0, 0, 0), (0, 0, 0), (0, 0, 0))
     \<and> north_of s2 = project (matrix_of s1) b
     \<and> north_of s2 = (0, 0, 0))"
  by (simp add: Let_def level_quaternion sample_fields quarter_turn_matrix fresh_matrix
      matrix_of_def north_of_def Compute_keeps_matrix Compute_north project_def transposed_def)

text \<open>
  C10.  \<open>InitializeHeuristic\<close> does not depend on its argument; every numeric field of
  the state it returns is zero and both flags are false.  In particular the initial
  quaternion is \<open>(0, 0, 0, 0)\<close>, of norm 0 and not a unit quaternion, and the initial
  \<open>T\<close> is 0; the first call to \<open>Compute\<close> sets \<open>T\<close> to the sample's timestamp.
\<close>

theorem C10_initial_state_all_zero:
  "InitializeHeuristic m = InitializeHeuristic m'
   \<and> list_all (\<lambda>field. field (InitializeHeuristic m) = 0)
        [E0, E1, E2, E3, e11, e12, e13, e21, e22, e23, e31, e32, e33, N1, N2, N3, T,
         Z1, Z2, Z3, W10, W20, W30, W1S, W2S, W3S, W1L, W2L, W3L,
         A1S, A2S, A3S, A1L, A2L, A3L, B1S, B2S, B3S, B1L, B2L, B3L,
         M1S, M2S, M3S, M1L, M2L, M3L]
   \<and> \<not> Inertial (InitializeHeuristic m) \<and> \<not> HeadingValid (InitializeHeuristic m)
   \<and> quaternion_of (InitializeHeuristic m) = (0, 0, 0, 0)
   \<and> norm_quat (quaternion_of (InitializeHeuristic m)) = 0
   \<and> norm_quat (quaternion_of (InitializeHeuristic m)) \<noteq> 1
   \<and> T (InitializeHeuristic m) = 0
   \<and> T (Compute G qAToB (InitializeHeuristic m) m1) = Measurement.T m1"
  by (simp add: InitializeHeuristic_def quaternion_of_def norm_quat_def Compute_saved_time)

end
